theory Spec2Isabelle
  imports Complex_Main
begin

section \<open>JavaScript values\<close>

text \<open>
  The HTTP response body, the rejection value of a failed request and the fields of an
  advertisement are untyped at run time (\<^verbatim>\<open>any\<close> in the TypeScript source), so they are
  modelled as JavaScript values. Numbers are the finite numbers a JSON body can carry
  (rationals); they are only tested for zero and passed on, never computed with.
  An object is an association list of its own properties.
\<close>

datatype js_value =
    JUndefined
  | JNull
  | JBool bool
  | JNum rat
  | JStr string
  | JArr "js_value list"
  | JObj "(string \<times> js_value) list"

text \<open>Truthiness, as \<^verbatim>\<open>if (v)\<close>, \<^verbatim>\<open>!v\<close> and \<^verbatim>\<open>a && b\<close> test it.\<close>

fun truthy :: "js_value \<Rightarrow> bool" where
  "truthy JUndefined = False"
| "truthy JNull = False"
| "truthy (JBool b) = b"
| "truthy (JNum n) = (n \<noteq> 0)"
| "truthy (JStr s) = (s \<noteq> [])"
| "truthy (JArr xs) = True"
| "truthy (JObj kvs) = True"

text \<open>The nullish coalescing operator \<^verbatim>\<open>v ?? d\<close>.\<close>

definition nullish :: "js_value \<Rightarrow> js_value \<Rightarrow> js_value" where
  "nullish v d = (if v = JUndefined \<or> v = JNull then d else v)"

text \<open>
  Property access \<^verbatim>\<open>v.k\<close>. On \<^verbatim>\<open>null\<close> and \<^verbatim>\<open>undefined\<close> it throws a TypeError; on an
  object it is the property's value, or \<^verbatim>\<open>undefined\<close> when the object has no such
  property; the primitives and arrays have none of the properties this program reads.
  A thrown value is the \<open>Inl\<close> of a sum.
\<close>

fun own_prop :: "js_value \<Rightarrow> string \<Rightarrow> js_value" where
  "own_prop (JObj kvs) k = (case map_of kvs k of None \<Rightarrow> JUndefined | Some v \<Rightarrow> v)"
| "own_prop v k = JUndefined"

definition type_error :: js_value where
  "type_error = JObj [(''name'', JStr ''TypeError'')]"

definition get_prop :: "js_value \<Rightarrow> string \<Rightarrow> js_value + js_value" where
  "get_prop v k = (if v = JUndefined \<or> v = JNull then Inl type_error else Inr (own_prop v k))"

definition js_bind :: "js_value + 'a \<Rightarrow> ('a \<Rightarrow> js_value + 'b) \<Rightarrow> js_value + 'b" where
  "js_bind m f = (case m of Inl e \<Rightarrow> Inl e | Inr x \<Rightarrow> f x)"

section \<open>Shared types\<close>

text \<open>
  \<^verbatim>\<open>AdResponse\<close>: the four fields of an advertisement. At run time each holds whatever
  the response body held, so each is a JavaScript value.
\<close>

record ad_response =
  ad_text :: js_value
  impUrl :: js_value
  clickUrl :: js_value
  payout :: js_value

section \<open>IrisClient\<close>

text \<open>
  Arrays of topic strings are mutable objects that the caller and the client may share,
  so they live in a store: a reference is an index into the store, allocation appends.
  A reference comes from an allocation only, so every reference a program holds is
  below the length of the store; the properties below assume it of the references
  they read.
\<close>

type_synonym ref = nat
type_synonym store = "string list list"

definition new_array :: "store \<Rightarrow> string list \<Rightarrow> store \<times> ref" where
  "new_array h xs = (h @ [xs], length h)"

definition array_push :: "store \<Rightarrow> ref \<Rightarrow> string \<Rightarrow> store" where
  "array_push h r x = h[r := h ! r @ [x]]"

record http_config =
  baseURL :: string
  timeout :: nat
  headers :: "(string \<times> string) list"

record iris_client =
  apiKey :: string
  excludedTopics :: ref
  httpClient :: http_config

text \<open>The constructor: the fields are assigned as given, the list by reference.\<close>

definition IrisClient :: "string \<Rightarrow> ref \<Rightarrow> iris_client" where
  "IrisClient key topics =
     \<lparr> apiKey = key,
       excludedTopics = topics,
       httpClient = \<lparr> baseURL = ''https://api.iristech.dev'',
                      timeout = 10000,
                      headers = [(''Content-Type'', ''application/json''),
                                 (''Authorization'', ''Bearer '' @ key)] \<rparr> \<rparr>"

definition updateExcludedTopics :: "iris_client \<Rightarrow> ref \<Rightarrow> iris_client" where
  "updateExcludedTopics this topics = this\<lparr> excludedTopics := topics \<rparr>"

text \<open>\<^verbatim>\<open>[...this.excludedTopics]\<close> allocates a new array with the same elements.\<close>

definition getExcludedTopics :: "iris_client \<Rightarrow> store \<Rightarrow> store \<times> ref" where
  "getExcludedTopics this h = new_array h (h ! excludedTopics this)"

text \<open>
  The outcome of \<^verbatim>\<open>await httpClient.post(path, body)\<close>: the promise resolves with a
  response or rejects with some value.
\<close>

record axios_response =
  data :: js_value
  status :: nat
  statusText :: string

datatype post_outcome = Resolved axios_response | Rejected js_value

text \<open>
  The body handed to \<^verbatim>\<open>post\<close> holds the client's array itself; what goes on the wire is
  its JSON serialisation, which reads the array as it is in the store at the call.
\<close>

definition bids_body :: "store \<Rightarrow> iris_client \<Rightarrow> string \<Rightarrow> string \<Rightarrow> string \<Rightarrow> js_value" where
  "bids_body h this inputPrompt responsePrompt userId =
     JObj [(''apiKey'', JStr (apiKey this)),
           (''inputPrompt'', JStr inputPrompt),
           (''responsePrompt'', JStr responsePrompt),
           (''userId'', JStr userId),
           (''excludedTopics'', JArr (map JStr (h ! excludedTopics this)))]"

text \<open>
  \<^verbatim>\<open>axios.isAxiosError\<close> is the library's test: an object whose \<^verbatim>\<open>isAxiosError\<close>
  property is \<^verbatim>\<open>true\<close>.
\<close>

fun isAxiosError :: "js_value \<Rightarrow> bool" where
  "isAxiosError (JObj kvs) = (own_prop (JObj kvs) ''isAxiosError'' = JBool True)"
| "isAxiosError v = False"

text \<open>The console: each \<^verbatim>\<open>console.error(label, payload)\<close> appends one entry.\<close>

type_synonym console = "(string \<times> js_value) list"

definition handleError :: "js_value \<Rightarrow> string \<Rightarrow> console \<Rightarrow> js_value + console" where
  "handleError error method logged =
     (if isAxiosError error then
        js_bind (get_prop error ''response'') (\<lambda>response.
          if truthy response then
            js_bind (get_prop response ''status'') (\<lambda>st.
            js_bind (get_prop response ''statusText'') (\<lambda>stText.
            js_bind (get_prop response ''data'') (\<lambda>d.
              Inr (logged @ [(''[IrisClient.'' @ method @ ''] API Error:'',
                           JObj [(''status'', st), (''statusText'', stText), (''data'', d)])]))))
          else
            js_bind (get_prop error ''request'') (\<lambda>request.
              if truthy request then
                js_bind (get_prop error ''code'') (\<lambda>code.
                  Inr (logged @ [(''[IrisClient.'' @ method @ ''] Network Error:'',
                               JObj [(''message'', JStr ''No response received from server''),
                                     (''code'', code)])]))
              else
                js_bind (get_prop error ''message'') (\<lambda>message.
                  Inr (logged @ [(''[IrisClient.'' @ method @ ''] Request Error:'', message)]))))
      else
        Inr (logged @ [(''[IrisClient.'' @ method @ ''] Unexpected Error:'', error)]))"

text \<open>The \<^verbatim>\<open>try\<close> block of \<^verbatim>\<open>getAd\<close>: \<open>Inl\<close> is the value thrown in it.\<close>

definition getAd_try ::
  "(string \<Rightarrow> js_value \<Rightarrow> post_outcome) \<Rightarrow> store \<Rightarrow> iris_client \<Rightarrow>
     string \<Rightarrow> string \<Rightarrow> string \<Rightarrow> js_value + ad_response option" where
  "getAd_try post h this inputPrompt responsePrompt userId =
     (case post ''/bids'' (bids_body h this inputPrompt responsePrompt userId) of
        Rejected error \<Rightarrow> Inl error
      | Resolved response \<Rightarrow>
          if truthy (data response) then
            js_bind (get_prop (data response) ''text'') (\<lambda>t.
              if truthy t then
                js_bind (get_prop (data response) ''impUrl'') (\<lambda>i.
                js_bind (get_prop (data response) ''clickUrl'') (\<lambda>c.
                js_bind (get_prop (data response) ''payout'') (\<lambda>p.
                  Inr (Some \<lparr> ad_text = t, impUrl = i, clickUrl = c, payout = p \<rparr>))))
              else Inr None)
          else Inr None)"

text \<open>
  \<^verbatim>\<open>getAd\<close>: the result is \<open>Inr\<close> of the advertisement or of \<open>None\<close> for \<^verbatim>\<open>null\<close>,
  or \<open>Inl\<close> of a value thrown to the caller; the second component is the console
  afterwards.
\<close>

definition getAd ::
  "(string \<Rightarrow> js_value \<Rightarrow> post_outcome) \<Rightarrow> store \<Rightarrow> iris_client \<Rightarrow>
     string \<Rightarrow> string \<Rightarrow> string \<Rightarrow> console \<Rightarrow> (js_value + ad_response option) \<times> console" where
  "getAd post h this inputPrompt responsePrompt userId logged =
     (case getAd_try post h this inputPrompt responsePrompt userId of
        Inr result \<Rightarrow> (Inr result, logged)
      | Inl error \<Rightarrow>
          (case handleError error ''getAd'' logged of
             Inl thrown \<Rightarrow> (Inl thrown, logged)
           | Inr logged' \<Rightarrow> (Inr None, logged')))"

section \<open>IrisAd\<close>

text \<open>
  What the component does to the browser is recorded as a list of calls:
  \<^verbatim>\<open>fetch(url, { method, mode })\<close>, \<^verbatim>\<open>window.open(url, target, features)\<close> and the
  invocation of the caller's \<^verbatim>\<open>onButtonClick(url, event)\<close>. The caller's handler \<open>'h\<close> and
  the click event \<open>'ev\<close> are opaque.
\<close>

datatype ('h, 'ev) browser_call =
    Fetch js_value "(string \<times> string) list"
  | WindowOpen js_value string string
  | OnButtonClick 'h js_value 'ev

text \<open>
  \<^verbatim>\<open>IrisAdProps\<close>. An optional property is an option; the advertisement is typed as
  required, but callers and tests pass \<^verbatim>\<open>null\<close> and \<^verbatim>\<open>undefined\<close>, which is \<open>None\<close>.
  The property \<^verbatim>\<open>show\<close> is the field \<open>show_flag\<close>.
\<close>

record 'h iris_ad_props =
  ad :: "ad_response option"
  className :: "string option"
  textClassName :: "string option"
  buttonClassName :: "string option"
  buttonText :: "string option"
  onButtonClick :: "'h option"
  show_flag :: "bool option"

text \<open>The rendered element tree: an element has a tag, its properties and its children.\<close>

datatype ('h, 'ev) prop_value =
    Val js_value
  | OnClick "'ev \<Rightarrow> ('h, 'ev) browser_call list"

datatype ('h, 'ev) vnode =
    Element string "(string \<times> ('h, 'ev) prop_value) list" "('h, 'ev) vnode list"
  | Expr js_value

definition opt_string :: "string option \<Rightarrow> js_value" where
  "opt_string s = (case s of None \<Rightarrow> JUndefined | Some x \<Rightarrow> JStr x)"

text \<open>
  A call of \<^verbatim>\<open>useEffect(create, deps)\<close> during a render: the calls \<open>create\<close> makes when
  it runs (it closes over the advertisement of that render) and the dependency array.
\<close>

datatype ('h, 'ev) hook = UseEffect "('h, 'ev) browser_call list" "js_value list"

text \<open>
  The effect's body. \<^verbatim>\<open>fetch\<close> is not awaited and what it throws is caught and ignored.
\<close>

definition impression_effect :: "ad_response \<Rightarrow> ('h, 'ev) browser_call list" where
  "impression_effect a =
     (if \<not> truthy (impUrl a) then []
      else [Fetch (impUrl a) [(''method'', ''GET''), (''mode'', ''no-cors'')]])"

definition handleButtonClick ::
  "'h option \<Rightarrow> ad_response \<Rightarrow> 'ev \<Rightarrow> ('h, 'ev) browser_call list" where
  "handleButtonClick handler a event =
     (let targetUrl = clickUrl a in
      case handler of
        Some f \<Rightarrow> [OnButtonClick f (nullish targetUrl (JStr '''')) event]
      | None \<Rightarrow>
          if truthy targetUrl then [WindowOpen targetUrl ''_blank'' ''noopener,noreferrer'']
          else [])"

text \<open>
  The component function: what it returns and the hook it called on the way, if it
  reached it. The early return comes before the call of \<^verbatim>\<open>useEffect\<close>.
\<close>

definition IrisAd :: "'h iris_ad_props \<Rightarrow> ('h, 'ev) vnode option \<times> ('h, 'ev) hook option" where
  "IrisAd props =
     (let label = (case buttonText props of None \<Rightarrow> ''Learn More'' | Some b \<Rightarrow> b);
          shown = (case show_flag props of None \<Rightarrow> True | Some b \<Rightarrow> b)
      in case ad props of
           None \<Rightarrow> (None, None)
         | Some a \<Rightarrow>
             if \<not> shown then (None, None)
             else
               (Some (Element ''div''
                        [(''className'', Val (opt_string (className props))),
                         (''data-iris-ad'', Val (JStr ''container''))]
                        [Element ''p''
                           [(''className'', Val (opt_string (textClassName props))),
                            (''data-iris-ad'', Val (JStr ''text''))]
                           [Expr (ad_text a)],
                         Element ''button''
                           [(''type'', Val (JStr ''button'')),
                            (''className'', Val (opt_string (buttonClassName props))),
                            (''onClick'', OnClick (handleButtonClick (onButtonClick props) a)),
                            (''data-iris-ad'', Val (JStr ''button''))]
                           [Expr (JStr label)]]),
                Some (UseEffect (impression_effect a) [])))"

subsection \<open>The mounted instance\<close>

text \<open>
  React keeps, for a mounted instance, the hooks of its last render (the fiber's
  \<^verbatim>\<open>memoizedState\<close>). A render that finds none there runs with the mount dispatcher,
  under which \<^verbatim>\<open>useEffect\<close> schedules its effect; a render that finds the hook runs with
  the update dispatcher, under which the effect is scheduled only when the
  dependencies differ from the stored ones. The state is cleared at the start of every
  render, so a render that returns before calling any hook leaves none behind, and the
  check for a changed number of hooks looks only at renders that called at least one.
  \<open>render_instance\<close> is one render and commit: the state afterwards, the output and the
  browser calls of the effects that ran.
\<close>

definition render_instance ::
  "('h, 'ev) hook option \<Rightarrow> 'h iris_ad_props \<Rightarrow>
     ('h, 'ev) hook option \<times> ('h, 'ev) vnode option \<times> ('h, 'ev) browser_call list" where
  "render_instance current props =
     (case IrisAd props of
        (out, None) \<Rightarrow> (None, out, [])
      | (out, Some (UseEffect create deps)) \<Rightarrow>
          (Some (UseEffect create deps), out,
           (case current of
              None \<Rightarrow> create
            | Some (UseEffect prevCreate prevDeps) \<Rightarrow> if deps = prevDeps then [] else create)))"

text \<open>
  The life of one mounted instance: it is rendered with each element of a list of
  properties in turn; the result is every browser call its effects made.
\<close>

fun renders ::
  "('h, 'ev) hook option \<Rightarrow> 'h iris_ad_props list \<Rightarrow> ('h, 'ev) browser_call list" where
  "renders current [] = []"
| "renders current (props # rest) =
     (case render_instance current props of
        (current', out, calls) \<Rightarrow> calls @ renders current' rest)"

definition mount :: "'h iris_ad_props list \<Rightarrow> ('h, 'ev) browser_call list" where
  "mount propss = renders None propss"

section \<open>Concrete inputs\<close>

text \<open>
  The inputs of the repository's tests, used below to run the definitions:
  a transport whose \<^verbatim>\<open>post\<close> resolves with a given body or rejects with a given value,
  the rejection values of the error-handling tests, the client and the advertisement.
\<close>

definition mockResolvedValue :: "js_value \<Rightarrow> string \<Rightarrow> js_value \<Rightarrow> post_outcome" where
  "mockResolvedValue d path body = Resolved \<lparr> data = d, status = 200, statusText = ''OK'' \<rparr>"

definition mockRejectedValue :: "js_value \<Rightarrow> string \<Rightarrow> js_value \<Rightarrow> post_outcome" where
  "mockRejectedValue e path body = Rejected e"

definition httpError :: js_value where
  "httpError =
     JObj [(''name'', JStr ''AxiosError''),
           (''message'', JStr ''Request failed with status code 404''),
           (''response'', JObj [(''status'', JNum 404),
                                (''statusText'', JStr ''Not Found''),
                                (''data'', JObj [(''error'', JStr ''Endpoint not found'')])]),
           (''isAxiosError'', JBool True)]"

definition timeoutError :: js_value where
  "timeoutError =
     JObj [(''name'', JStr ''AxiosError''),
           (''message'', JStr ''timeout of 10000ms exceeded''),
           (''code'', JStr ''ECONNABORTED''),
           (''request'', JObj []),
           (''isAxiosError'', JBool True)]"

definition setupError :: js_value where
  "setupError =
     JObj [(''name'', JStr ''AxiosError''),
           (''message'', JStr ''Invalid URL''),
           (''isAxiosError'', JBool True)]"

definition genericError :: js_value where
  "genericError = JObj [(''name'', JStr ''Error''), (''message'', JStr ''Something went wrong'')]"

definition mockStore :: store where
  "mockStore = [[''politics'', ''adult''], [''sports'', ''technology'']]"

definition mockClient :: iris_client where
  "mockClient = IrisClient ''test-api-key-12345'' 0"

definition mockAd :: ad_response where
  "mockAd =
     \<lparr> ad_text = JStr ''Test Advertisement Text'',
       impUrl = JStr ''https://api.example.com/impression?id=123'',
       clickUrl = JStr ''https://api.example.com/click?id=123'',
       payout = JNum (1 / 4) \<rparr>"

definition mockProps :: "ad_response option \<Rightarrow> 'h iris_ad_props" where
  "mockProps a =
     \<lparr> ad = a, className = None, textClassName = None, buttonClassName = None,
       buttonText = None, onButtonClick = None, show_flag = None \<rparr>"

text \<open>An advertisement with an empty text and no URL or payout at all.\<close>

definition bareAd :: ad_response where
  "bareAd = \<lparr> ad_text = JStr [], impUrl = JUndefined, clickUrl = JUndefined,
              payout = JUndefined \<rparr>"

section \<open>Properties of getAd\<close>

lemma get_prop_truthy: "truthy v \<Longrightarrow> get_prop v k = Inr (own_prop v k)"
  by (auto simp: get_prop_def)

lemma get_prop_obj: "get_prop (JObj kvs) k = Inr (own_prop (JObj kvs) k)"
  by (simp add: get_prop_def)

lemma js_bind_Inr: "js_bind (Inr x) f = f x"
  by (simp add: js_bind_def)

lemma isAxiosError_obj: "isAxiosError e \<Longrightarrow> \<exists>kvs. e = JObj kvs"
  by (cases e) auto

text \<open>What \<^verbatim>\<open>getAd\<close> returns when the request resolves: nothing is thrown or logged.\<close>

lemma getAd_try_Resolved:
  assumes "post ''/bids'' (bids_body h this i r u) = Resolved response"
  shows "getAd_try post h this i r u =
           Inr (if truthy (data response) \<and> truthy (own_prop (data response) ''text'')
                then Some \<lparr> ad_text = own_prop (data response) ''text'',
                            impUrl = own_prop (data response) ''impUrl'',
                            clickUrl = own_prop (data response) ''clickUrl'',
                            payout = own_prop (data response) ''payout'' \<rparr>
                else None)"
  using assms by (simp add: getAd_try_def get_prop_truthy js_bind_Inr)

lemma getAd_Resolved:
  assumes "post ''/bids'' (bids_body h this i r u) = Resolved response"
  shows "getAd post h this i r u logged =
           (Inr (if truthy (data response) \<and> truthy (own_prop (data response) ''text'')
                 then Some \<lparr> ad_text = own_prop (data response) ''text'',
                             impUrl = own_prop (data response) ''impUrl'',
                             clickUrl = own_prop (data response) ''clickUrl'',
                             payout = own_prop (data response) ''payout'' \<rparr>
                 else None), logged)"
  using assms
  by (simp add: getAd_def getAd_try_Resolved [where post = post and response = response])

text \<open>
  \<open>handleError\<close> never throws: the property reads on the error happen only once it is
  known to be an object, those on its response only once that is truthy. It appends
  exactly one entry.
\<close>

lemma handleError_total:
  "handleError e m logged = Inr (logged @ [
     if isAxiosError e then
       if truthy (own_prop e ''response'') then
         (''[IrisClient.'' @ m @ ''] API Error:'',
          JObj [(''status'', own_prop (own_prop e ''response'') ''status''),
                (''statusText'', own_prop (own_prop e ''response'') ''statusText''),
                (''data'', own_prop (own_prop e ''response'') ''data'')])
       else if truthy (own_prop e ''request'') then
         (''[IrisClient.'' @ m @ ''] Network Error:'',
          JObj [(''message'', JStr ''No response received from server''),
                (''code'', own_prop e ''code'')])
       else (''[IrisClient.'' @ m @ ''] Request Error:'', own_prop e ''message'')
     else (''[IrisClient.'' @ m @ ''] Unexpected Error:'', e)])"
proof (cases "isAxiosError e")
  case False
  then show ?thesis by (simp add: handleError_def)
next
  case True
  then obtain kvs where e: "e = JObj kvs" using isAxiosError_obj by blast
  show ?thesis
    using True unfolding e handleError_def
    by (simp add: get_prop_obj js_bind_Inr get_prop_truthy
        del: own_prop.simps isAxiosError.simps)
qed

text \<open>
  C1, as amended. For every response whose body is truthy and whose \<^verbatim>\<open>text\<close> field is
  truthy (for a string: not empty), \<open>getAd\<close> returns an advertisement whose four fields
  are the body's \<^verbatim>\<open>text\<close>, \<^verbatim>\<open>impUrl\<close>, \<^verbatim>\<open>clickUrl\<close> and \<^verbatim>\<open>payout\<close> as they are:
  \<^verbatim>\<open>null\<close> stays \<^verbatim>\<open>null\<close>, a missing field is \<^verbatim>\<open>undefined\<close>, the payout is not
  looked at, and the advertisement has no other field. Nothing is logged.
\<close>

theorem getAd_copies_fields:
  assumes "post ''/bids'' (bids_body h this i r u) = Resolved response"
      and "truthy (data response)"
      and "truthy (own_prop (data response) ''text'')"
  shows "getAd post h this i r u logged =
           (Inr (Some \<lparr> ad_text = own_prop (data response) ''text'',
                        impUrl = own_prop (data response) ''impUrl'',
                        clickUrl = own_prop (data response) ''clickUrl'',
                        payout = own_prop (data response) ''payout'' \<rparr>), logged)"
  using assms by (simp add: getAd_Resolved [where post = post and response = response])

text \<open>
  Runs of it: a body with \<^verbatim>\<open>null\<close> URLs, a zero payout and a further field
  \<^verbatim>\<open>url\<close>, which the advertisement does not carry; and a body with a negative payout
  and no impression URL.
\<close>

theorem getAd_copies_fields_witness:
  "getAd (mockResolvedValue
            (JObj [(''text'', JStr ''Free ad''), (''url'', JStr ''https://example.com''),
                   (''impUrl'', JNull), (''clickUrl'', JNull), (''payout'', JNum 0)]))
         mockStore mockClient ''input'' ''response'' ''user-123'' [] =
     (Inr (Some \<lparr> ad_text = JStr ''Free ad'', impUrl = JNull, clickUrl = JNull,
                  payout = JNum 0 \<rparr>), [])
   \<and> getAd (mockResolvedValue
              (JObj [(''text'', JStr ''Test ad''),
                     (''clickUrl'', JStr ''https://api.iristech.dev/click?id=123''),
                     (''payout'', JNum (- 1 / 10))]))
           mockStore mockClient ''input'' ''response'' ''user-123'' [] =
     (Inr (Some \<lparr> ad_text = JStr ''Test ad'', impUrl = JUndefined,
                  clickUrl = JStr ''https://api.iristech.dev/click?id=123'',
                  payout = JNum (- 1 / 10) \<rparr>), [])"
  using
    getAd_copies_fields
      [of "mockResolvedValue
            (JObj [(''text'', JStr ''Free ad''), (''url'', JStr ''https://example.com''),
                   (''impUrl'', JNull), (''clickUrl'', JNull), (''payout'', JNum 0)])"
          mockStore mockClient "''input''" "''response''" "''user-123''" _ "[]"]
    getAd_copies_fields
      [of "mockResolvedValue
              (JObj [(''text'', JStr ''Test ad''),
                     (''clickUrl'', JStr ''https://api.iristech.dev/click?id=123''),
                     (''payout'', JNum (- 1 / 10))])"
          mockStore mockClient "''input''" "''response''" "''user-123''" _ "[]"]
  by (simp add: mockResolvedValue_def)

text \<open>
  C1 as it is written fails where the \<^verbatim>\<open>text\<close> field is present and empty: the body
  has the field, and \<open>getAd\<close> returns \<^verbatim>\<open>null\<close>, not an advertisement.
\<close>

theorem getAd_empty_text_present_counterexample:
  "own_prop (JObj [(''text'', JStr ''''), (''impUrl'', JNull), (''clickUrl'', JNull),
                   (''payout'', JNum 0)]) ''text'' = JStr ''''
   \<and> getAd (mockResolvedValue
              (JObj [(''text'', JStr ''''), (''impUrl'', JNull), (''clickUrl'', JNull),
                     (''payout'', JNum 0)]))
           mockStore mockClient ''input'' ''response'' ''user-123'' [] = (Inr None, [])"
  by (simp add: getAd_def getAd_try_def mockResolvedValue_def get_prop_def js_bind_def)

text \<open>
  C2. When the POST request is rejected, \<open>getAd\<close> throws nothing to its caller: it
  returns \<^verbatim>\<open>null\<close> and the console gains exactly one entry. For an axios error with a
  response the entry is labelled an API error and holds the response's status, status
  text and body; for an axios error with a request and no response it is labelled a
  network error and holds the fixed message and the error's code; for an axios error
  with neither it is labelled a request error and holds the error's message; for any
  other rejection value it is labelled an unexpected error and holds the value itself.
\<close>

theorem getAd_transport_failure:
  assumes "post ''/bids'' (bids_body h this i r u) = Rejected e"
  shows "fst (getAd post h this i r u logged) = Inr None
       \<and> length (snd (getAd post h this i r u logged)) = Suc (length logged)
       \<and> (isAxiosError e \<and> truthy (own_prop e ''response'') \<longrightarrow>
            snd (getAd post h this i r u logged) = logged @
              [(''[IrisClient.getAd] API Error:'',
                JObj [(''status'', own_prop (own_prop e ''response'') ''status''),
                      (''statusText'', own_prop (own_prop e ''response'') ''statusText''),
                      (''data'', own_prop (own_prop e ''response'') ''data'')])])
       \<and> (isAxiosError e \<and> \<not> truthy (own_prop e ''response'')
            \<and> truthy (own_prop e ''request'') \<longrightarrow>
            snd (getAd post h this i r u logged) = logged @
              [(''[IrisClient.getAd] Network Error:'',
                JObj [(''message'', JStr ''No response received from server''),
                      (''code'', own_prop e ''code'')])])
       \<and> (isAxiosError e \<and> \<not> truthy (own_prop e ''response'')
            \<and> \<not> truthy (own_prop e ''request'') \<longrightarrow>
            snd (getAd post h this i r u logged) = logged @
              [(''[IrisClient.getAd] Request Error:'', own_prop e ''message'')])
       \<and> (\<not> isAxiosError e \<longrightarrow>
            snd (getAd post h this i r u logged) = logged @
              [(''[IrisClient.getAd] Unexpected Error:'', e)])"
proof -
  have t: "getAd_try post h this i r u = Inl e"
    using assms by (simp add: getAd_try_def)
  show ?thesis
    unfolding getAd_def t by (simp add: handleError_total)
qed

text \<open>
  Runs of it, one for each case: an HTTP 404, a timeout, a request that was never sent
  and a plain \<^verbatim>\<open>Error\<close>.
\<close>

theorem getAd_transport_failure_witness:
  "getAd (mockRejectedValue httpError) mockStore mockClient
         ''input'' ''response'' ''user-123'' [] =
     (Inr None,
      [(''[IrisClient.getAd] API Error:'',
        JObj [(''status'', JNum 404), (''statusText'', JStr ''Not Found''),
              (''data'', JObj [(''error'', JStr ''Endpoint not found'')])])])
   \<and> getAd (mockRejectedValue timeoutError) mockStore mockClient
           ''input'' ''response'' ''user-123'' [] =
     (Inr None,
      [(''[IrisClient.getAd] Network Error:'',
        JObj [(''message'', JStr ''No response received from server''),
              (''code'', JStr ''ECONNABORTED'')])])
   \<and> getAd (mockRejectedValue setupError) mockStore mockClient
           ''input'' ''response'' ''user-123'' [] =
     (Inr None, [(''[IrisClient.getAd] Request Error:'', JStr ''Invalid URL'')])
   \<and> getAd (mockRejectedValue genericError) mockStore mockClient
           ''input'' ''response'' ''user-123'' [] =
     (Inr None, [(''[IrisClient.getAd] Unexpected Error:'', genericError)])"
  using
    getAd_transport_failure [of "mockRejectedValue httpError" mockStore mockClient
      "''input''" "''response''" "''user-123''" httpError "[]"]
    getAd_transport_failure [of "mockRejectedValue timeoutError" mockStore mockClient
      "''input''" "''response''" "''user-123''" timeoutError "[]"]
    getAd_transport_failure [of "mockRejectedValue setupError" mockStore mockClient
      "''input''" "''response''" "''user-123''" setupError "[]"]
    getAd_transport_failure [of "mockRejectedValue genericError" mockStore mockClient
      "''input''" "''response''" "''user-123''" genericError "[]"]
  by (simp add: mockRejectedValue_def httpError_def timeoutError_def setupError_def
      genericError_def prod_eq_iff)

text \<open>
  C5, as amended. For every response whose \<^verbatim>\<open>text\<close> field is the empty string, \<open>getAd\<close>
  treats the text as missing: it returns \<^verbatim>\<open>null\<close> and logs nothing. A resolved request
  gives \<^verbatim>\<open>null\<close> exactly when the body is falsy or its \<^verbatim>\<open>text\<close> field is falsy
  (missing, \<^verbatim>\<open>null\<close> or the empty string among others).
\<close>

theorem getAd_null_path:
  assumes "post ''/bids'' (bids_body h this i r u) = Resolved response"
  shows "(own_prop (data response) ''text'' = JStr '''' \<longrightarrow>
            getAd post h this i r u logged = (Inr None, logged))
       \<and> (fst (getAd post h this i r u logged) = Inr None \<longleftrightarrow>
            \<not> truthy (data response) \<or> \<not> truthy (own_prop (data response) ''text''))"
  using assms by (auto simp: getAd_Resolved [where post = post and response = response])

text \<open>A run of it: an empty text beside a click URL.\<close>

theorem getAd_null_path_witness:
  "getAd (mockResolvedValue
            (JObj [(''text'', JStr ''''),
                   (''clickUrl'', JStr ''https://api.iristech.dev/click?id=abc123'')]))
         mockStore mockClient ''input'' ''response'' ''user-123'' [] = (Inr None, [])"
  using getAd_null_path [of "mockResolvedValue
            (JObj [(''text'', JStr ''''),
                   (''clickUrl'', JStr ''https://api.iristech.dev/click?id=abc123'')])"
      mockStore mockClient "''input''" "''response''" "''user-123''" _ "[]"]
  by (simp add: mockResolvedValue_def)

text \<open>
  C5 as it is written fails on the body \<^verbatim>\<open>{ text: '' }\<close>: no advertisement is returned.
\<close>

theorem getAd_empty_text_counterexample:
  "getAd (mockResolvedValue (JObj [(''text'', JStr '''')]))
         mockStore mockClient ''input'' ''response'' ''user-123'' [] = (Inr None, [])"
  by (simp add: getAd_def getAd_try_def mockResolvedValue_def get_prop_def js_bind_def)

text \<open>
  C7. For every response whose body is \<^verbatim>\<open>null\<close> or \<^verbatim>\<open>undefined\<close>, or whose body has no
  \<^verbatim>\<open>text\<close> field, \<open>getAd\<close> returns \<^verbatim>\<open>null\<close> and the console is as it was.
\<close>

theorem getAd_no_ad:
  assumes "post ''/bids'' (bids_body h this i r u) = Resolved response"
      and "data response = JNull \<or> data response = JUndefined
           \<or> own_prop (data response) ''text'' = JUndefined"
  shows "getAd post h this i r u logged = (Inr None, logged)"
  using assms by (auto simp: getAd_Resolved [where post = post and response = response])

text \<open>Runs of it: a \<^verbatim>\<open>null\<close> body, an \<^verbatim>\<open>undefined\<close> body and a body without text.\<close>

theorem getAd_no_ad_witness:
  "getAd (mockResolvedValue JNull) mockStore mockClient
         ''input'' ''response'' ''user-123'' [] = (Inr None, [])
   \<and> getAd (mockResolvedValue JUndefined) mockStore mockClient
           ''input'' ''response'' ''user-123'' [] = (Inr None, [])
   \<and> getAd (mockResolvedValue
              (JObj [(''impUrl'', JStr ''https://api.iristech.dev/impression?id=abc123''),
                     (''clickUrl'', JStr ''https://api.iristech.dev/click?id=abc123''),
                     (''payout'', JNum (15 / 100))]))
           mockStore mockClient ''input'' ''response'' ''user-123'' [] = (Inr None, [])"
  using
    getAd_no_ad [of "mockResolvedValue JNull" mockStore mockClient
      "''input''" "''response''" "''user-123''" _ "[]"]
    getAd_no_ad [of "mockResolvedValue JUndefined" mockStore mockClient
      "''input''" "''response''" "''user-123''" _ "[]"]
    getAd_no_ad [of "mockResolvedValue
              (JObj [(''impUrl'', JStr ''https://api.iristech.dev/impression?id=abc123''),
                     (''clickUrl'', JStr ''https://api.iristech.dev/click?id=abc123''),
                     (''payout'', JNum (15 / 100))])" mockStore mockClient
      "''input''" "''response''" "''user-123''" _ "[]"]
  by (simp add: mockResolvedValue_def)

section \<open>Properties of the excluded topics\<close>

text \<open>
  C8, as amended. The client keeps the very list it is given: the constructor and
  \<open>updateExcludedTopics\<close> store the reference and make no copy. The body of a request
  carries the elements that list has when \<open>getAd\<close> is called, so a request shows what
  the caller has written to the list since; writing to any other list changes nothing
  in the request.
\<close>

theorem request_carries_current_list:
  "excludedTopics (IrisClient key t) = t
   \<and> excludedTopics (updateExcludedTopics this t) = t
   \<and> own_prop (bids_body h this i r u) ''excludedTopics'' =
       JArr (map JStr (h ! excludedTopics this))
   \<and> (excludedTopics this < length h \<longrightarrow>
        own_prop (bids_body (h[excludedTopics this := ys]) this i r u) ''excludedTopics'' =
          JArr (map JStr ys))
   \<and> (r' \<noteq> excludedTopics this \<longrightarrow>
        bids_body (h[r' := ys]) this i r u = bids_body h this i r u)"
  by (simp add: IrisClient_def updateExcludedTopics_def bids_body_def)

text \<open>
  A run of it: overwriting the client's list changes the request, overwriting the other
  list of the store does not.
\<close>

theorem request_carries_current_list_witness:
  "own_prop (bids_body (mockStore[0 := [''gambling'']]) mockClient
               ''input'' ''response'' ''user-123'') ''excludedTopics'' = JArr [JStr ''gambling'']
   \<and> bids_body (mockStore[1 := [''gambling'']]) mockClient ''input'' ''response'' ''user-123'' =
       bids_body mockStore mockClient ''input'' ''response'' ''user-123''"
  using request_carries_current_list
    [of "''test-api-key-12345''" 0 mockClient mockStore "''input''" "''response''" "''user-123''"
        "[''gambling'']" 1]
  by (simp add: mockStore_def mockClient_def IrisClient_def)

text \<open>
  C8 as it is written fails: the caller constructs the client with the list
  \<^verbatim>\<open>['politics', 'adult']\<close> and then pushes \<^verbatim>\<open>'sports'\<close> onto the list it still holds;
  the request body before the push and the one after it differ.
\<close>

theorem caller_mutation_reaches_request_counterexample:
  "own_prop (bids_body mockStore mockClient ''input'' ''response'' ''user-123'')
       ''excludedTopics'' = JArr [JStr ''politics'', JStr ''adult'']
   \<and> own_prop (bids_body (array_push mockStore 0 ''sports'') mockClient
                 ''input'' ''response'' ''user-123'')
       ''excludedTopics'' = JArr [JStr ''politics'', JStr ''adult'', JStr ''sports'']"
  by (simp add: bids_body_def mockStore_def mockClient_def IrisClient_def array_push_def)

text \<open>
  C9. For every list \<open>T\<close> (an array \<open>t\<close> of the store), after \<open>updateExcludedTopics\<close>
  with it \<open>getExcludedTopics\<close> returns an array with the elements of \<open>T\<close>. The array
  returned is a new one, not the client's: whatever is written to it afterwards, the
  client's list keeps its elements and the next \<open>getExcludedTopics\<close> returns them.
\<close>

theorem update_then_get_excluded_topics:
  assumes "t < length h"
  shows "(let this' = updateExcludedTopics this t;
              h1 = fst (getExcludedTopics this' h);
              r1 = snd (getExcludedTopics this' h)
          in h1 ! r1 = h ! t
           \<and> r1 \<noteq> excludedTopics this'
           \<and> h1 ! excludedTopics this' = h ! t
           \<and> (\<forall>ys. let h2 = h1[r1 := ys]
                    in h2 ! excludedTopics this' = h ! t
                     \<and> fst (getExcludedTopics this' h2) ! snd (getExcludedTopics this' h2)
                         = h ! t))"
  using assms
  by (simp add: Let_def updateExcludedTopics_def getExcludedTopics_def new_array_def nth_append)

text \<open>
  A run of it: the topics are replaced by \<^verbatim>\<open>['sports', 'technology']\<close>, read, and a
  topic is pushed onto the array that was returned.
\<close>

theorem update_then_get_excluded_topics_witness:
  "(let this' = updateExcludedTopics mockClient 1;
        h1 = fst (getExcludedTopics this' mockStore);
        r1 = snd (getExcludedTopics this' mockStore);
        h2 = array_push h1 r1 ''new-topic''
    in h1 ! r1 = [''sports'', ''technology'']
     \<and> h2 ! r1 = [''sports'', ''technology'', ''new-topic'']
     \<and> h2 ! excludedTopics this' = [''sports'', ''technology'']
     \<and> fst (getExcludedTopics this' h2) ! snd (getExcludedTopics this' h2) =
         [''sports'', ''technology''])"
  using update_then_get_excluded_topics [of 1 mockStore mockClient]
  by (simp add: Let_def mockStore_def mockClient_def IrisClient_def updateExcludedTopics_def
      getExcludedTopics_def new_array_def array_push_def nth_append)

section \<open>Properties of IrisAd\<close>

text \<open>
  C10. Whether the component renders depends only on the \<^verbatim>\<open>show\<close> flag and on the
  advertisement being there, never on what the advertisement holds: it renders nothing
  exactly when \<^verbatim>\<open>show\<close> is false or the advertisement is \<^verbatim>\<open>null\<close> or \<^verbatim>\<open>undefined\<close>,
  and otherwise it renders the whole structure, the container holding the text region
  and the button, each with its \<^verbatim>\<open>data-iris-ad\<close> marker, whatever the text and the URLs.
\<close>

theorem IrisAd_renders_full_structure:
  "(fst (IrisAd props :: ('h, 'ev) vnode option \<times> ('h, 'ev) hook option) = None
      \<longleftrightarrow> show_flag props = Some False \<or> ad props = None)
   \<and> (show_flag props \<noteq> Some False \<and> ad props = Some a \<longrightarrow>
        fst (IrisAd props) =
          Some (Element ''div''
                  [(''className'', Val (opt_string (className props))),
                   (''data-iris-ad'', Val (JStr ''container''))]
                  [Element ''p''
                     [(''className'', Val (opt_string (textClassName props))),
                      (''data-iris-ad'', Val (JStr ''text''))]
                     [Expr (ad_text a)],
                   Element ''button''
                     [(''type'', Val (JStr ''button'')),
                      (''className'', Val (opt_string (buttonClassName props))),
                      (''onClick'', OnClick (handleButtonClick (onButtonClick props) a)),
                      (''data-iris-ad'', Val (JStr ''button''))]
                     [Expr (JStr (case buttonText props of None \<Rightarrow> ''Learn More''
                                  | Some b \<Rightarrow> b))]]))"
  by (auto simp: IrisAd_def Let_def split: option.splits)

text \<open>
  A run of it: an advertisement whose text is the empty string and that has no URL.
\<close>

theorem IrisAd_renders_full_structure_witness:
  "fst (IrisAd (mockProps (Some bareAd) :: string iris_ad_props)) =
     Some (Element ''div''
             [(''className'', Val JUndefined), (''data-iris-ad'', Val (JStr ''container''))]
             [Element ''p''
                [(''className'', Val JUndefined), (''data-iris-ad'', Val (JStr ''text''))]
                [Expr (JStr '''')],
              Element ''button''
                [(''type'', Val (JStr ''button'')),
                 (''className'', Val JUndefined),
                 (''onClick'', OnClick (handleButtonClick None bareAd :: string \<Rightarrow> _)),
                 (''data-iris-ad'', Val (JStr ''button''))]
                [Expr (JStr ''Learn More'')]])"
  using IrisAd_renders_full_structure
    [where 'h = string and 'ev = string, of "mockProps (Some bareAd)" bareAd]
  by (auto simp: mockProps_def opt_string_def bareAd_def)

text \<open>
  C4. A click on the button is handled in this order. If the caller supplied a click
  handler, that handler is called with the advertisement's \<^verbatim>\<open>clickUrl\<close>, or with the
  empty string when \<^verbatim>\<open>clickUrl\<close> is \<^verbatim>\<open>null\<close> or missing, and with the event, and nothing
  else happens. Otherwise, if \<^verbatim>\<open>clickUrl\<close> is truthy, \<^verbatim>\<open>window.open\<close> is called with it,
  the target \<^verbatim>\<open>_blank\<close> and the features \<^verbatim>\<open>noopener,noreferrer\<close>. Otherwise (the empty
  string, \<^verbatim>\<open>null\<close>, missing) nothing happens.
\<close>

theorem handleButtonClick_order:
  "(handler = Some f \<longrightarrow>
      handleButtonClick handler a ev =
        [OnButtonClick f (if clickUrl a = JNull \<or> clickUrl a = JUndefined then JStr ''''
                          else clickUrl a) ev])
   \<and> (handler = None \<and> truthy (clickUrl a) \<longrightarrow>
      handleButtonClick handler a ev =
        [WindowOpen (clickUrl a) ''_blank'' ''noopener,noreferrer''])
   \<and> (handler = None
        \<and> (clickUrl a = JStr '''' \<or> clickUrl a = JNull \<or> clickUrl a = JUndefined) \<longrightarrow>
      handleButtonClick handler a ev = [])
   \<and> (handler = None \<and> \<not> truthy (clickUrl a) \<longrightarrow> handleButtonClick handler a ev = [])"
  by (auto simp: handleButtonClick_def nullish_def)

text \<open>
  Runs of it: a handler with and without a click URL, and no handler with a click URL
  and with \<^verbatim>\<open>null\<close>.
\<close>

theorem handleButtonClick_order_witness:
  "handleButtonClick (Some ''mockOnButtonClick'') mockAd ''click'' =
     [OnButtonClick ''mockOnButtonClick'' (JStr ''https://api.example.com/click?id=123'')
        ''click'']
   \<and> handleButtonClick (Some ''mockOnButtonClick'') (mockAd\<lparr>clickUrl := JUndefined\<rparr>)
        ''click'' =
     [OnButtonClick ''mockOnButtonClick'' (JStr '''') ''click'']
   \<and> handleButtonClick (None :: string option) mockAd ''click'' =
     [WindowOpen (JStr ''https://api.example.com/click?id=123'') ''_blank''
        ''noopener,noreferrer'']
   \<and> handleButtonClick (None :: string option) (mockAd\<lparr>clickUrl := JNull\<rparr>) ''click'' = []"
  using
    handleButtonClick_order [of "Some ''mockOnButtonClick''" "''mockOnButtonClick''" mockAd
      "''click''"]
    handleButtonClick_order [of "Some ''mockOnButtonClick''" "''mockOnButtonClick''"
      "mockAd\<lparr>clickUrl := JUndefined\<rparr>" "''click''"]
    handleButtonClick_order [of "None :: string option" _ mockAd "''click''"]
    handleButtonClick_order [of "None :: string option" _ "mockAd\<lparr>clickUrl := JNull\<rparr>"
      "''click''"]
  by (simp add: mockAd_def)

text \<open>
  C6. The claim is that a click with \<^verbatim>\<open>clickUrl\<close> the empty string and no handler opens
  the empty string, as the component's test of that case expects. The code does not:
  the empty string is falsy, the guard \<^verbatim>\<open>if (targetUrl)\<close> fails and no call is made.
\<close>

theorem click_with_empty_clickUrl_opens_nothing:
  "handleButtonClick None (mockAd\<lparr>clickUrl := JStr ''''\<rparr>) ev = []"
  by (simp add: handleButtonClick_def mockAd_def)

subsection \<open>The impression request\<close>

text \<open>
  A render with \<^verbatim>\<open>show\<close> false or without an advertisement issues no request, and it
  leaves the instance without its effect hook.
\<close>

lemma inactive_render_issues_nothing:
  "show_flag props = Some False \<or> ad props = None \<Longrightarrow>
     render_instance current props = (None, None, [])"
  by (auto simp: render_instance_def IrisAd_def split: option.splits)

text \<open>
  The first render that shows an advertisement issues the request if and only if the
  impression URL is truthy (for a string: not empty), as a GET in \<^verbatim>\<open>no-cors\<close> mode.
\<close>

lemma first_active_render_fires_iff_impUrl:
  "ad props = Some a \<Longrightarrow> show_flag props \<noteq> Some False \<Longrightarrow>
     snd (snd (render_instance None props)) =
       (if truthy (impUrl a)
        then [Fetch (impUrl a) [(''method'', ''GET''), (''mode'', ''no-cors'')]] else [])"
  by (auto simp: render_instance_def IrisAd_def impression_effect_def split: option.splits)

text \<open>
  A render that shows an advertisement right after one that did issues nothing, and
  keeps the hook.
\<close>

lemma active_rerender_issues_nothing:
  "ad props = Some a \<Longrightarrow> show_flag props \<noteq> Some False \<Longrightarrow>
     fst (render_instance (Some (UseEffect c [])) props) = Some (UseEffect (impression_effect a) [])
     \<and> snd (snd (render_instance (Some (UseEffect c [])) props)) = []"
  by (auto simp: render_instance_def IrisAd_def split: option.splits)

lemma renders_while_active:
  "\<forall>p \<in> set ps. show_flag p \<noteq> Some False \<and> ad p \<noteq> None \<Longrightarrow>
     renders (Some (UseEffect c [])) ps = []"
proof (induction ps arbitrary: c)
  case Nil
  then show ?case by simp
next
  case (Cons p ps)
  then obtain a where a: "ad p = Some a" and s: "show_flag p \<noteq> Some False"
    by auto
  from Cons.prems have rest: "\<forall>q \<in> set ps. show_flag q \<noteq> Some False \<and> ad q \<noteq> None"
    by simp
  obtain cur out calls where r: "render_instance (Some (UseEffect c [])) p = (cur, out, calls)"
    by (cases "render_instance (Some (UseEffect c [])) p") auto
  from active_rerender_issues_nothing [OF a s, of c] r
  have "cur = Some (UseEffect (impression_effect a) [])" and "calls = []"
    by simp_all
  with r Cons.IH [OF rest] show ?case by simp
qed

text \<open>
  So an instance that shows an advertisement in every render issues the request once,
  at its first render, whatever the later properties are: the case the component's test
  of a re-render covers.
\<close>

lemma mount_always_active:
  assumes "ad p = Some a" and "show_flag p \<noteq> Some False"
      and "\<forall>q \<in> set ps. show_flag q \<noteq> Some False \<and> ad q \<noteq> None"
  shows "(mount (p # ps) :: ('h, 'ev) browser_call list) =
           (if truthy (impUrl a)
            then [Fetch (impUrl a) [(''method'', ''GET''), (''mode'', ''no-cors'')]] else [])"
  using assms(1,2)
  by (auto simp: mount_def render_instance_def IrisAd_def impression_effect_def
      renders_while_active [OF assms(3)] split: option.splits)

text \<open>
  C3. The claim is that the impression request is issued once for a mounted instance
  and never again on a later render of it, whatever the properties; the source's comment
  on the effect, the package's documentation and the test of a re-render say the same.
  The code does not keep to it. The component returns early, before its call of
  \<^verbatim>\<open>useEffect\<close>, when \<^verbatim>\<open>show\<close> is false or the advertisement is missing; that render
  leaves the instance without the hook, and the next render that shows the
  advertisement registers the effect anew and runs it. An instance rendered shown, then
  hidden, then shown again issues the request twice.
\<close>

theorem impression_fires_again_after_hidden:
  "mount [mockProps (Some mockAd),
          (mockProps (Some mockAd))\<lparr>show_flag := Some False\<rparr>,
          mockProps (Some mockAd)] =
     [Fetch (JStr ''https://api.example.com/impression?id=123'')
        [(''method'', ''GET''), (''mode'', ''no-cors'')],
      Fetch (JStr ''https://api.example.com/impression?id=123'')
        [(''method'', ''GET''), (''mode'', ''no-cors'')]]"
  by (simp add: mount_def render_instance_def IrisAd_def impression_effect_def mockProps_def
      mockAd_def)

end
